theory Spec2Isabelle
  imports Main "HOL-Library.Word"
begin

section \<open>Data model\<close>

text \<open>
  The repository holds two tray implementations: the darwin tray of package \<open>tray\<close>
  (type \<open>trayImpl\<close>, two diff caches) and the earlier package \<open>tray_macos\<close>
  (type \<open>Tray\<close>, one diff cache). Both are embedded; the definitions of the second
  carry the suffix \<open>_macos\<close>. Functions whose text is the same in both files
  (\<open>statusIcon\<close>, \<open>selfTitle\<close>, \<open>connToggleText\<close>, \<open>exitToggleText\<close>) are embedded
  once.
\<close>

type_synonym byte = "8 word"
type_synonym bytes = "byte list"

text \<open>
  A \<open>unique.Handle[string]\<close> compares equal to another exactly when the strings they were
  made from are equal, so a handle is its string.
\<close>

type_synonym handle = string

definition selfHandle :: handle where
  "selfHandle = ''self''"

definition connToggleHandle :: handle where
  "connToggleHandle = ''connToggle''"

definition exitToggleHandle :: handle where
  "exitToggleHandle = ''exitToggle''"

definition statusIconHandle :: handle where
  "statusIconHandle = ''statusIcon''"

text \<open>The three embedded icon files; their contents are parameters of the model.\<close>

record icons =
  statusIconActiveData :: bytes
  statusIconInactiveData :: bytes
  statusIconExitNodeData :: bytes

text \<open>
  Modelled from the spec: \<open>tsutil.IPNStatus\<close> lives in package \<open>tsutil\<close>, outside the
  source files. The record holds what the queries the tray consumes return:
  \<open>Online()\<close>, \<open>ExitNodeActive()\<close>, \<open>SelfAddr()\<close> (its \<open>IsValid()\<close> and its
  \<open>String()\<close>) and \<open>NetMap.SelfNode.DisplayName(true)\<close>.
\<close>

record IPNStatus =
  Online :: bool
  ExitNodeActive :: bool
  SelfAddrValid :: bool
  SelfAddrString :: string
  DisplayName :: string

text \<open>
  \<open>Update\<close> takes a \<open>tsutil.Status\<close> interface value and asserts it to
  \<open>*tsutil.IPNStatus\<close>; every other dynamic type is \<open>OtherStatus\<close>.
\<close>

datatype Status = IPN IPNStatus | OtherStatus

text \<open>A value of Go's \<open>any\<close>, as the callers of \<open>dirty\<close> pass it.\<close>

datatype any = VString string | VBool bool | VBytes bytes

datatype panic = UncomparableType | NilMapAssignment

datatype item = ShowItem | ConnToggleItem | ExitToggleItem | SelfNodeItem | QuitItem

datatype callback = OnShow | OnConnToggle | OnExitToggle | OnSelfNode | OnQuit

text \<open>
  What the tray does to the outside, in the order it does it: the calls into the systray
  library, and the listener goroutines it starts (\<open>Listen i cb\<close> is
  \<open>go func() { for range i.ClickedCh { t.cb() } }()\<close>). \<open>SetTitle\<close> is
  \<open>systray.SetTitle\<close>, the title of the tray; \<open>ItemSetTitle\<close>, \<open>Enable\<close>,
  \<open>Disable\<close>, \<open>Check\<close> and \<open>Uncheck\<close> are the methods of a menu item.
\<close>

datatype call =
    SetRemovalAllowed bool
  | SetTemplateIcon bytes bytes
  | SetIcon bytes
  | SetTitle string
  | AddMenuItem item string string
  | AddMenuItemCheckbox item string string bool
  | AddSeparator
  | ItemSetTitle item string
  | Enable item
  | Disable item
  | Check item
  | Uncheck item
  | Quit
  | Listen item callback

record trayImpl =
  prev :: "(handle \<rightharpoonup> any list) option"
  prevBytes :: "(handle \<rightharpoonup> bytes list) option"
  appStart :: bool
  appClose :: bool
  trayReady :: bool

record Tray =
  prev_macos :: "(handle \<rightharpoonup> any list) option"
  appStart_macos :: bool
  appClose_macos :: bool
  trayReady_macos :: bool

text \<open>
  A map field is \<open>None\<close> when the Go map is nil. The fields \<open>appStart\<close> and
  \<open>appClose\<close> say whether the function value is non-nil. The menu item handles are
  named by \<open>item\<close>; they are created in \<open>onReady\<close> before \<open>trayReady\<close> is set. The
  mutex is not modelled: the operations run one after the other.
\<close>

section \<open>Go's maps, interface comparison and slices.Equal\<close>

text \<open>\<open>m[k]\<close> for a map of slices: a nil map and a missing key both give the nil slice.\<close>

definition map_index :: "('k \<rightharpoonup> 'v list) option \<Rightarrow> 'k \<Rightarrow> 'v list" where
  "map_index mo k = (case mo of None \<Rightarrow> [] | Some m \<Rightarrow> (case m k of None \<Rightarrow> [] | Some v \<Rightarrow> v))"

text \<open>\<open>m[k] = v\<close>: assignment to an entry of a nil map panics.\<close>

definition map_assign :: "('k \<rightharpoonup> 'v) option \<Rightarrow> 'k \<Rightarrow> 'v \<Rightarrow> panic + ('k \<rightharpoonup> 'v) option" where
  "map_assign mo k v = (case mo of None \<Rightarrow> Inl NilMapAssignment | Some m \<Rightarrow> Inr (Some (m(k \<mapsto> v))))"

text \<open>
  \<open>==\<close> on two interface values: different dynamic types are unequal; the same
  comparable type compares the values; the same uncomparable type (a slice) panics.
\<close>

fun iface_eq :: "any \<Rightarrow> any \<Rightarrow> panic + bool" where
  "iface_eq (VString a) (VString b) = Inr (a = b)"
| "iface_eq (VBool a) (VBool b) = Inr (a = b)"
| "iface_eq (VBytes a) (VBytes b) = Inl UncomparableType"
| "iface_eq _ _ = Inr False"

text \<open>The loop of \<open>slices.Equal\<close>, entered with slices of the same length.\<close>

fun slices_Equal_loop :: "any list \<Rightarrow> any list \<Rightarrow> panic + bool" where
  "slices_Equal_loop (x # xs) (y # ys) =
     (case iface_eq x y of
        Inl e \<Rightarrow> Inl e
      | Inr b \<Rightarrow> if \<not> b then Inr False else slices_Equal_loop xs ys)"
| "slices_Equal_loop _ _ = Inr True"

definition slices_Equal :: "any list \<Rightarrow> any list \<Rightarrow> panic + bool" where
  "slices_Equal s1 s2 =
     (if length s1 \<noteq> length s2 then Inr False else slices_Equal_loop s1 s2)"

text \<open>
  The loop of \<open>dirtyBytes\<close> over the stored buffers, entered with as many new buffers:
  true at the first position where \<open>bytes.Equal\<close> fails.
\<close>

fun bytes_differ :: "bytes list \<Rightarrow> bytes list \<Rightarrow> bool" where
  "bytes_differ (v # vs) (p # ps) = (if v \<noteq> p then True else bytes_differ vs ps)"
| "bytes_differ _ _ = False"

section \<open>The diff cache\<close>

definition dirty :: "trayImpl \<Rightarrow> handle \<Rightarrow> any list \<Rightarrow> panic + (trayImpl \<times> bool)" where
  "dirty t key vals =
     (let p = map_index (prev t) key in
      case slices_Equal vals p of
        Inl e \<Rightarrow> Inl e
      | Inr eq \<Rightarrow>
          if eq then Inr (t, False)
          else (case map_assign (prev t) key vals of
                  Inl e \<Rightarrow> Inl e
                | Inr m \<Rightarrow> Inr (t\<lparr>prev := m\<rparr>, True)))"

definition dirtyBytes :: "trayImpl \<Rightarrow> handle \<Rightarrow> bytes list \<Rightarrow> panic + (trayImpl \<times> bool)" where
  "dirtyBytes t key vals =
     (let prevBytesSlices = map_index (prevBytes t) key in
      if length prevBytesSlices \<noteq> length vals
      then (case map_assign (prevBytes t) key vals of
              Inl e \<Rightarrow> Inl e
            | Inr m \<Rightarrow> Inr (t\<lparr>prevBytes := m\<rparr>, True))
      else if bytes_differ vals prevBytesSlices
      then (case map_assign (prevBytes t) key vals of
              Inl e \<Rightarrow> Inl e
            | Inr m \<Rightarrow> Inr (t\<lparr>prevBytes := m\<rparr>, True))
      else Inr (t, False))"

definition dirty_macos :: "Tray \<Rightarrow> handle \<Rightarrow> any list \<Rightarrow> panic + (Tray \<times> bool)" where
  "dirty_macos t key vals =
     (let p = map_index (prev_macos t) key in
      case slices_Equal vals p of
        Inl e \<Rightarrow> Inl e
      | Inr eq \<Rightarrow>
          if eq then Inr (t, False)
          else (case map_assign (prev_macos t) key vals of
                  Inl e \<Rightarrow> Inl e
                | Inr m \<Rightarrow> Inr (t\<lparr>prev_macos := m\<rparr>, True)))"

section \<open>Presentation values\<close>

definition statusIcon :: "icons \<Rightarrow> IPNStatus \<Rightarrow> bytes" where
  "statusIcon ic status =
     (if \<not> Online status then statusIconInactiveData ic
      else if ExitNodeActive status then statusIconExitNodeData ic
      else statusIconActiveData ic)"

text \<open>\<open>fmt.Sprintf("%v (%v)", name, addr)\<close> prints the name, a space, and the address in parentheses.\<close>

definition selfTitle :: "IPNStatus \<Rightarrow> string \<times> bool" where
  "selfTitle status =
     (if \<not> SelfAddrValid status then (''Not connected'', False)
      else (DisplayName status @ '' ('' @ SelfAddrString status @ '')'', True))"

definition connToggleText :: "bool \<Rightarrow> string" where
  "connToggleText online = (if online then ''Disconnect'' else ''Connect'')"

definition exitToggleText :: "IPNStatus \<Rightarrow> string" where
  "exitToggleText status =
     (if ExitNodeActive status then ''Disable exit node'' else ''Enable exit node'')"

section \<open>The render engine\<close>

definition updateStatusIcon :: "icons \<Rightarrow> trayImpl \<Rightarrow> IPNStatus \<Rightarrow> panic + (trayImpl \<times> call list)" where
  "updateStatusIcon ic t status =
     (let newIcon = statusIcon ic status in
      case dirtyBytes t statusIconHandle [newIcon] of
        Inl e \<Rightarrow> Inl e
      | Inr (t', d) \<Rightarrow>
          if \<not> d then Inr (t', [])
          else Inr (t', [SetTemplateIcon newIcon newIcon]))"

definition update :: "icons \<Rightarrow> trayImpl \<Rightarrow> IPNStatus \<Rightarrow> panic + (trayImpl \<times> call list)" where
  "update ic t status =
     (if \<not> trayReady t then Inr (t, [])
      else
        let (selfTitle', connected) = selfTitle status;
            connToggleLabel = connToggleText (Online status);
            exitToggleLabel = exitToggleText status
        in
        case updateStatusIcon ic t status of
          Inl e \<Rightarrow> Inl e
        | Inr (t1, c1) \<Rightarrow>
        (case dirty t1 selfHandle [VString selfTitle', VBool connected] of
          Inl e \<Rightarrow> Inl e
        | Inr (t2, d2) \<Rightarrow>
        let c2 = (if d2
                  then [ItemSetTitle SelfNodeItem (''This machine: '' @ selfTitle'),
                        if connected then Enable SelfNodeItem else Disable SelfNodeItem]
                  else [])
        in
        (case dirty t2 connToggleHandle [VString connToggleLabel, VBool (Online status)] of
          Inl e \<Rightarrow> Inl e
        | Inr (t3, d3) \<Rightarrow>
        let c3 = (if d3
                  then [ItemSetTitle ConnToggleItem connToggleLabel,
                        if Online status then Check ConnToggleItem else Uncheck ConnToggleItem]
                  else [])
        in
        (case dirty t3 exitToggleHandle
               [VString exitToggleLabel, VBool connected, VBool (ExitNodeActive status)] of
          Inl e \<Rightarrow> Inl e
        | Inr (t4, d4) \<Rightarrow>
        let c4 = (if d4
                  then [ItemSetTitle ExitToggleItem exitToggleLabel,
                        if connected then Enable ExitToggleItem else Disable ExitToggleItem,
                        if ExitNodeActive status then Check ExitToggleItem
                        else Uncheck ExitToggleItem]
                  else [])
        in Inr (t4, c1 @ c2 @ c3 @ c4)))))"

definition updateStatusIcon_macos :: "icons \<Rightarrow> Tray \<Rightarrow> IPNStatus \<Rightarrow> panic + (Tray \<times> call list)" where
  "updateStatusIcon_macos ic t status =
     (let newIcon = statusIcon ic status in
      case dirty_macos t statusIconHandle [VBytes newIcon] of
        Inl e \<Rightarrow> Inl e
      | Inr (t', d) \<Rightarrow>
          if \<not> d then Inr (t', [])
          else Inr (t', [SetIcon newIcon]))"

definition update_macos :: "icons \<Rightarrow> Tray \<Rightarrow> IPNStatus \<Rightarrow> panic + (Tray \<times> call list)" where
  "update_macos ic t status =
     (if trayReady_macos t = False then Inr (t, [])
      else
        let (selfTitle', connected) = selfTitle status;
            connToggleLabel = connToggleText (Online status);
            exitToggleLabel = exitToggleText status
        in
        case updateStatusIcon_macos ic t status of
          Inl e \<Rightarrow> Inl e
        | Inr (t1, c1) \<Rightarrow>
        (case dirty_macos t1 selfHandle [VString selfTitle', VBool connected] of
          Inl e \<Rightarrow> Inl e
        | Inr (t2, d2) \<Rightarrow>
        let c2 = (if d2
                  then [ItemSetTitle SelfNodeItem (''This machine: '' @ selfTitle'),
                        if connected then Enable SelfNodeItem else Disable SelfNodeItem]
                  else [])
        in
        (case dirty_macos t2 connToggleHandle [VString connToggleLabel] of
          Inl e \<Rightarrow> Inl e
        | Inr (t3, d3) \<Rightarrow>
        let c3 = (if d3 then [ItemSetTitle ConnToggleItem connToggleLabel] else [])
        in
        (case dirty_macos t3 exitToggleHandle [VString exitToggleLabel, VBool connected] of
          Inl e \<Rightarrow> Inl e
        | Inr (t4, d4) \<Rightarrow>
        let c4 = (if d4
                  then [ItemSetTitle ExitToggleItem exitToggleLabel,
                        if connected then Enable ExitToggleItem else Disable ExitToggleItem]
                  else [])
        in Inr (t4, c1 @ c2 @ c3 @ c4)))))"


section \<open>The lifecycle of the darwin tray\<close>

text \<open>
  The callbacks that \<open>Start\<close> registers with \<open>systray.RunWithExternalLoop\<close>. The
  library is outside the repository. Modelled from the spec: the function \<open>appStart\<close> it
  returns starts the native tray, which calls \<open>onReady\<close> (section 4.3: \<open>Start\<close>
  creates the elements, becomes ready and performs the initial paint), and the function
  \<open>appClose\<close> ends it, which calls \<open>onExit\<close> (\<open>Close\<close> tears the session down and
  clears \<open>ready\<close>). Logging is left out.
\<close>

definition onReady :: "icons \<Rightarrow> trayImpl \<Rightarrow> IPNStatus \<Rightarrow> panic + (trayImpl \<times> call list)" where
  "onReady ic t status =
     (let cs = [SetRemovalAllowed True,
                SetTemplateIcon (statusIconActiveData ic) (statusIconActiveData ic),
                AddMenuItem ShowItem ''Show'' ''Show Trayscale'',
                Listen ShowItem OnShow,
                AddSeparator,
                AddMenuItemCheckbox ConnToggleItem ''Connected'' ''Connect to tailscale''
                  (Online status),
                Listen ConnToggleItem OnConnToggle,
                AddMenuItemCheckbox ExitToggleItem ''Exit Node Enabled''
                  ''Allow use of this device as an exit node'' (ExitNodeActive status),
                Listen ExitToggleItem OnExitToggle,
                AddMenuItem SelfNodeItem (SelfAddrString status) ''Current Node IP'',
                Listen SelfNodeItem OnSelfNode,
                AddSeparator,
                AddMenuItem QuitItem ''Quit'' ''Quit Trayscale (tailscale will remain running)'',
                Listen QuitItem OnQuit];
          t1 = t\<lparr>trayReady := True\<rparr>
      in case update ic t1 status of
           Inl e \<Rightarrow> Inl e
         | Inr (t2, us) \<Rightarrow> Inr (t2, cs @ us))"

text \<open>The receiver of \<open>close\<close> and of \<open>Update\<close> may be nil: \<open>None\<close>.\<close>

definition close :: "trayImpl option \<Rightarrow> trayImpl option \<times> call list" where
  "close r =
     (case r of
        None \<Rightarrow> (None, [])
      | Some t \<Rightarrow> (Some (t\<lparr>appClose := False, appStart := False, prev := None\<rparr>), [Quit]))"

definition onExit :: "trayImpl \<Rightarrow> trayImpl option \<times> call list" where
  "onExit t = close (Some (t\<lparr>trayReady := False\<rparr>))"

text \<open>\<open>Start\<close> returns a nil error on every path; \<open>Inl\<close> is a panic.\<close>

definition Start :: "icons \<Rightarrow> trayImpl \<Rightarrow> IPNStatus \<Rightarrow> panic + (trayImpl \<times> call list)" where
  "Start ic t status =
     (let t1 = t\<lparr>trayReady := False\<rparr>;
          t2 = t1\<lparr>appStart := True, appClose := True\<rparr>;
          t3 = t2\<lparr>prev := Some Map.empty, prevBytes := Some Map.empty\<rparr>
      in onReady ic t3 status)"

definition Close :: "trayImpl \<Rightarrow> trayImpl option \<times> call list" where
  "Close t = (if appClose t then onExit t else (Some t, []))"

definition Update :: "icons \<Rightarrow> trayImpl option \<Rightarrow> Status \<Rightarrow> panic + (trayImpl option \<times> call list)" where
  "Update ic r s =
     (case r of
        None \<Rightarrow> Inr (None, [])
      | Some t \<Rightarrow>
          (case s of
             OtherStatus \<Rightarrow> Inr (Some t, [])
           | IPN status \<Rightarrow>
               (case update ic t status of
                  Inl e \<Rightarrow> Inl e
                | Inr (t', cs) \<Rightarrow> Inr (Some t', cs))))"

section \<open>The lifecycle of the tray_macos variant\<close>

text \<open>
  Here \<open>Start\<close> registers the callbacks and resets the cache, and does not call
  \<open>appStart\<close>; the library calls \<open>onReady\<close> with the status \<open>Start\<close> was given, and
  \<open>onExit\<close>. The call \<open>t.appStart()\<close> that ends \<open>onReady\<close> goes into the library
  after the repaint and is not modelled. \<open>Close\<close> does not reach the library.
\<close>

definition onReady_macos :: "icons \<Rightarrow> Tray \<Rightarrow> IPNStatus \<Rightarrow> panic + (Tray \<times> call list)" where
  "onReady_macos ic t status =
     (let cs = [SetTitle ''Trayscale'',
                AddMenuItem ShowItem ''Show'' ''Show Trayscale'',
                Listen ShowItem OnShow,
                AddSeparator,
                AddMenuItemCheckbox ConnToggleItem ''Connected'' ''Connect to tailscale''
                  (Online status),
                Listen ConnToggleItem OnConnToggle,
                AddMenuItemCheckbox ExitToggleItem ''Exit Node Enabled''
                  ''Allow use of this device as an exit node'' (ExitNodeActive status),
                Listen ConnToggleItem OnExitToggle,
                AddMenuItem SelfNodeItem (SelfAddrString status) ''Current Node IP'',
                Listen SelfNodeItem OnSelfNode,
                AddSeparator,
                AddMenuItem QuitItem ''Quit'' ''Quit Trayscale (tailscale will remain running)'',
                Listen QuitItem OnQuit];
          t1 = t\<lparr>trayReady_macos := True\<rparr>
      in case update_macos ic t1 status of
           Inl e \<Rightarrow> Inl e
         | Inr (t2, us) \<Rightarrow> Inr (t2, cs @ us))"

definition onExit_macos :: "Tray \<Rightarrow> Tray" where
  "onExit_macos t = t\<lparr>trayReady_macos := False\<rparr>"

definition Start_macos :: "Tray \<Rightarrow> IPNStatus \<Rightarrow> Tray" where
  "Start_macos t status =
     (let t1 = t\<lparr>trayReady_macos := False\<rparr>;
          t2 = t1\<lparr>appStart_macos := True, appClose_macos := True\<rparr>
      in t2\<lparr>prev_macos := Some Map.empty\<rparr>)"

definition Close_macos :: "Tray option \<Rightarrow> Tray option" where
  "Close_macos r = (case r of None \<Rightarrow> None | Some t \<Rightarrow> Some (t\<lparr>prev_macos := None\<rparr>))"

definition Update_macos :: "icons \<Rightarrow> Tray option \<Rightarrow> Status \<Rightarrow> panic + (Tray option \<times> call list)" where
  "Update_macos ic r s =
     (case r of
        None \<Rightarrow> Inr (None, [])
      | Some t \<Rightarrow>
          (case s of
             OtherStatus \<Rightarrow> Inr (Some t, [])
           | IPN status \<Rightarrow>
               (case update_macos ic t status of
                  Inl e \<Rightarrow> Inl e
                | Inr (t', cs) \<Rightarrow> Inr (Some t', cs))))"

section \<open>Click dispatch\<close>

text \<open>
  A click on an item is a send on that item's \<open>ClickedCh\<close>. It is received by one of the
  listeners that range over that channel, which then calls its callback; \<open>click cs i\<close>
  lists the callbacks a click on \<open>i\<close> can reach, given the listeners started in \<open>cs\<close>.
\<close>

fun click :: "call list \<Rightarrow> item \<Rightarrow> callback list" where
  "click [] i = []"
| "click (Listen ch cb # cs) i = (if ch = i then cb # click cs i else click cs i)"
| "click (_ # cs) i = click cs i"

section \<open>Initial states and the calls on one item\<close>

text \<open>\<open>New\<close> returns a \<open>trayImpl\<close> whose fields other than the callbacks are zero.\<close>

definition New :: trayImpl where
  "New = \<lparr>prev = None, prevBytes = None, appStart = False, appClose = False, trayReady = False\<rparr>"

text \<open>The tray_macos package has no constructor; its callers start from the zero \<open>Tray\<close>.\<close>

definition zero_Tray :: Tray where
  "zero_Tray = \<lparr>prev_macos = None, appStart_macos = False, appClose_macos = False,
                 trayReady_macos = False\<rparr>"

text \<open>\<open>on_item i c\<close>: the call \<open>c\<close> changes the title, enabled or checked state of item \<open>i\<close>.\<close>

fun on_item :: "item \<Rightarrow> call \<Rightarrow> bool" where
  "on_item i (ItemSetTitle j s) = (i = j)"
| "on_item i (Enable j) = (i = j)"
| "on_item i (Disable j) = (i = j)"
| "on_item i (Check j) = (i = j)"
| "on_item i (Uncheck j) = (i = j)"
| "on_item i _ = False"

section \<open>Concrete inputs\<close>

definition icons_example :: icons where
  "icons_example =
     \<lparr>statusIconActiveData = [1], statusIconInactiveData = [2], statusIconExitNodeData = [3]\<rparr>"

definition snapshot_offline :: IPNStatus where
  "snapshot_offline =
     \<lparr>Online = False, ExitNodeActive = False, SelfAddrValid = False,
      SelfAddrString = ''invalid IP'', DisplayName = ''''\<rparr>"

definition snapshot_host :: IPNStatus where
  "snapshot_host =
     \<lparr>Online = True, ExitNodeActive = False, SelfAddrValid = True,
      SelfAddrString = ''100.1.2.3'', DisplayName = ''host''\<rparr>"

section \<open>Facts about the diff cache\<close>

fun is_scalar :: "any \<Rightarrow> bool" where
  "is_scalar (VBytes b) = False"
| "is_scalar _ = True"

lemma handles_distinct:
  "selfHandle \<noteq> connToggleHandle" "selfHandle \<noteq> exitToggleHandle"
  "selfHandle \<noteq> statusIconHandle" "connToggleHandle \<noteq> exitToggleHandle"
  "connToggleHandle \<noteq> statusIconHandle" "exitToggleHandle \<noteq> statusIconHandle"
  "connToggleHandle \<noteq> selfHandle" "exitToggleHandle \<noteq> selfHandle"
  "statusIconHandle \<noteq> selfHandle" "exitToggleHandle \<noteq> connToggleHandle"
  "statusIconHandle \<noteq> connToggleHandle" "statusIconHandle \<noteq> exitToggleHandle"
  by (simp_all add: selfHandle_def connToggleHandle_def exitToggleHandle_def statusIconHandle_def)

lemma iface_eq_scalar: "is_scalar x \<Longrightarrow> iface_eq x y = Inr (x = y)"
  by (cases x; cases y) simp_all

lemma slices_Equal_loop_scalar:
  "list_all is_scalar xs \<Longrightarrow> length xs = length ys \<Longrightarrow> slices_Equal_loop xs ys = Inr (xs = ys)"
proof (induction xs ys rule: slices_Equal_loop.induct)
  case (1 x xs y ys)
  then show ?case by (simp add: iface_eq_scalar)
qed simp_all

lemma slices_Equal_scalar:
  "list_all is_scalar xs \<Longrightarrow> slices_Equal xs ys = Inr (xs = ys)"
  by (auto simp: slices_Equal_def slices_Equal_loop_scalar)

lemma bytes_differ_iff: "length vs = length ps \<Longrightarrow> bytes_differ vs ps = (vs \<noteq> ps)"
  by (induction vs ps rule: bytes_differ.induct) simp_all

lemma dirty_scalar:
  "list_all is_scalar vals \<Longrightarrow>
   dirty t key vals =
     (if vals = map_index (prev t) key then Inr (t, False)
      else case prev t of
             None \<Rightarrow> Inl NilMapAssignment
           | Some m \<Rightarrow> Inr (t\<lparr>prev := Some (m(key \<mapsto> vals))\<rparr>, True))"
  by (simp add: dirty_def slices_Equal_scalar map_assign_def split: option.splits)

lemma dirty_macos_scalar:
  "list_all is_scalar vals \<Longrightarrow>
   dirty_macos t key vals =
     (if vals = map_index (prev_macos t) key then Inr (t, False)
      else case prev_macos t of
             None \<Rightarrow> Inl NilMapAssignment
           | Some m \<Rightarrow> Inr (t\<lparr>prev_macos := Some (m(key \<mapsto> vals))\<rparr>, True))"
  by (simp add: dirty_macos_def slices_Equal_scalar map_assign_def split: option.splits)

lemma dirtyBytes_eq:
  "dirtyBytes t key vals =
     (if vals = map_index (prevBytes t) key then Inr (t, False)
      else case prevBytes t of
             None \<Rightarrow> Inl NilMapAssignment
           | Some m \<Rightarrow> Inr (t\<lparr>prevBytes := Some (m(key \<mapsto> vals))\<rparr>, True))"
proof (cases "length (map_index (prevBytes t) key) = length vals")
  case True
  then show ?thesis
    by (simp add: dirtyBytes_def Let_def bytes_differ_iff map_assign_def split: option.splits)
next
  case False
  then show ?thesis
    by (auto simp: dirtyBytes_def Let_def map_assign_def split: option.splits)
qed


section \<open>Facts about the render engine of the darwin tray\<close>

lemmas example_defs = icons_example_def snapshot_offline_def snapshot_host_def New_def zero_Tray_def

text \<open>
  A repaint on a ready tray with allocated caches returns: it stores the four tuples of
  the snapshot and issues the calls of exactly the elements whose stored tuple differed.
\<close>

lemma update_ready:
  assumes "trayReady t" and "prev t = Some m" and "prevBytes t = Some mb"
  shows "update ic t s =
    Inr (t\<lparr>prev := Some (m(selfHandle \<mapsto> [VString (fst (selfTitle s)), VBool (snd (selfTitle s))],
                            connToggleHandle \<mapsto> [VString (connToggleText (Online s)), VBool (Online s)],
                            exitToggleHandle \<mapsto> [VString (exitToggleText s), VBool (snd (selfTitle s)),
                                                 VBool (ExitNodeActive s)])),
            prevBytes := Some (mb(statusIconHandle \<mapsto> [statusIcon ic s]))\<rparr>,
         (if mb statusIconHandle = Some [statusIcon ic s] then []
          else [SetTemplateIcon (statusIcon ic s) (statusIcon ic s)]) @
         (if m selfHandle = Some [VString (fst (selfTitle s)), VBool (snd (selfTitle s))] then []
          else [ItemSetTitle SelfNodeItem (''This machine: '' @ fst (selfTitle s)),
                if snd (selfTitle s) then Enable SelfNodeItem else Disable SelfNodeItem]) @
         (if m connToggleHandle = Some [VString (connToggleText (Online s)), VBool (Online s)] then []
          else [ItemSetTitle ConnToggleItem (connToggleText (Online s)),
                if Online s then Check ConnToggleItem else Uncheck ConnToggleItem]) @
         (if m exitToggleHandle =
               Some [VString (exitToggleText s), VBool (snd (selfTitle s)), VBool (ExitNodeActive s)]
          then []
          else [ItemSetTitle ExitToggleItem (exitToggleText s),
                if snd (selfTitle s) then Enable ExitToggleItem else Disable ExitToggleItem,
                if ExitNodeActive s then Check ExitToggleItem else Uncheck ExitToggleItem]))"
  using assms
  apply (cases t)
  apply (simp add: update_def updateStatusIcon_def dirtyBytes_eq dirty_scalar map_index_def
       handles_distinct Let_def split_beta split: option.splits)
  apply (auto simp: fun_upd_idem fun_upd_twist handles_distinct)
  done

text \<open>A repaint on a ready tray returns only when both caches are allocated.\<close>

lemma update_ok_maps:
  assumes "trayReady t" and "update ic t s = Inr (t', cs)"
  shows "\<exists>m mb. prev t = Some m \<and> prevBytes t = Some mb"
proof (cases "prevBytes t")
  case None
  with assms show ?thesis
    by (simp add: update_def updateStatusIcon_def dirtyBytes_eq map_index_def split_beta)
next
  case (Some mb)
  show ?thesis
  proof (cases "prev t")
    case None
    with assms Some show ?thesis
      by (simp add: update_def updateStatusIcon_def dirtyBytes_eq dirty_scalar map_index_def
            split_beta Let_def split: if_splits)
  next
    case (Some m)
    with \<open>prevBytes t = Some mb\<close> show ?thesis by simp
  qed
qed

lemma update_keeps_flags:
  assumes "update ic t s = Inr (t', cs)"
  shows "trayReady t' = trayReady t \<and> appClose t' = appClose t \<and> appStart t' = appStart t"
proof (cases "trayReady t")
  case False
  with assms show ?thesis by (auto simp: update_def)
next
  case True
  with assms obtain m mb where m: "prev t = Some m" "prevBytes t = Some mb"
    using update_ok_maps by blast
  from assms show ?thesis
    unfolding update_ready[OF True m] by auto
qed

text \<open>
  Idempotence of the darwin tray's repaint: when a repaint with a snapshot has returned,
  the next repaint with the same snapshot returns the same tray and issues no call.
\<close>

lemma update_idempotent:
  assumes "update ic t s = Inr (t', cs)"
  shows "update ic t' s = Inr (t', [])"
proof (cases "trayReady t")
  case False
  with assms show ?thesis by (auto simp: update_def)
next
  case True
  with assms obtain m mb where m: "prev t = Some m" "prevBytes t = Some mb"
    using update_ok_maps by blast
  from assms update_ready[OF True m, of ic s]
  show ?thesis
    apply (cases t)
    apply (simp add: update_def updateStatusIcon_def dirtyBytes_eq dirty_scalar map_index_def
       handles_distinct Let_def split_beta)
    done
qed

text \<open>The connect-toggle step of the darwin tray's repaint.\<close>

lemma update_conn_toggle:
  assumes "trayReady t" and "prev t = Some m" and "prevBytes t = Some mb"
  shows "\<exists>t' cs. update ic t s = Inr (t', cs) \<and>
           map_index (prev t') connToggleHandle = [VString (connToggleText (Online s)), VBool (Online s)] \<and>
           filter (on_item ConnToggleItem) cs =
             (if m connToggleHandle = Some [VString (connToggleText (Online s)), VBool (Online s)]
              then []
              else [ItemSetTitle ConnToggleItem (connToggleText (Online s)),
                    if Online s then Check ConnToggleItem else Uncheck ConnToggleItem])"
  unfolding update_ready[OF assms]
  by (simp add: map_index_def handles_distinct)

text \<open>\<open>Start\<close> returns on every tray: it creates the menu and paints every element.\<close>

lemma Start_eq:
  "Start ic t A =
     Inr (t\<lparr>prev := Some [selfHandle \<mapsto> [VString (fst (selfTitle A)), VBool (snd (selfTitle A))],
                           connToggleHandle \<mapsto> [VString (connToggleText (Online A)), VBool (Online A)],
                           exitToggleHandle \<mapsto> [VString (exitToggleText A), VBool (snd (selfTitle A)),
                                                VBool (ExitNodeActive A)]],
            prevBytes := Some [statusIconHandle \<mapsto> [statusIcon ic A]],
            appStart := True, appClose := True, trayReady := True\<rparr>,
       [SetRemovalAllowed True,
        SetTemplateIcon (statusIconActiveData ic) (statusIconActiveData ic),
        AddMenuItem ShowItem ''Show'' ''Show Trayscale'',
        Listen ShowItem OnShow,
        AddSeparator,
        AddMenuItemCheckbox ConnToggleItem ''Connected'' ''Connect to tailscale'' (Online A),
        Listen ConnToggleItem OnConnToggle,
        AddMenuItemCheckbox ExitToggleItem ''Exit Node Enabled''
          ''Allow use of this device as an exit node'' (ExitNodeActive A),
        Listen ExitToggleItem OnExitToggle,
        AddMenuItem SelfNodeItem (SelfAddrString A) ''Current Node IP'',
        Listen SelfNodeItem OnSelfNode,
        AddSeparator,
        AddMenuItem QuitItem ''Quit'' ''Quit Trayscale (tailscale will remain running)'',
        Listen QuitItem OnQuit,
        SetTemplateIcon (statusIcon ic A) (statusIcon ic A),
        ItemSetTitle SelfNodeItem (''This machine: '' @ fst (selfTitle A)),
        if snd (selfTitle A) then Enable SelfNodeItem else Disable SelfNodeItem,
        ItemSetTitle ConnToggleItem (connToggleText (Online A)),
        if Online A then Check ConnToggleItem else Uncheck ConnToggleItem,
        ItemSetTitle ExitToggleItem (exitToggleText A),
        if snd (selfTitle A) then Enable ExitToggleItem else Disable ExitToggleItem,
        if ExitNodeActive A then Check ExitToggleItem else Uncheck ExitToggleItem])"
proof -
  let ?t3 = "t\<lparr>trayReady := False, appStart := True, appClose := True,
               prev := Some Map.empty, prevBytes := Some Map.empty, trayReady := True\<rparr>"
  have "trayReady ?t3" "prev ?t3 = Some Map.empty" "prevBytes ?t3 = Some Map.empty" by simp_all
  from update_ready[OF this, of ic A] show ?thesis
    by (simp add: Start_def onReady_def Let_def)
qed

text \<open>Every listener of the darwin tray ranges over the channel of its own item.\<close>

lemma Start_click:
  "\<exists>t' cs. Start ic t s = Inr (t', cs) \<and> click cs ShowItem = [OnShow] \<and>
     click cs ConnToggleItem = [OnConnToggle] \<and> click cs ExitToggleItem = [OnExitToggle] \<and>
     click cs SelfNodeItem = [OnSelfNode] \<and> click cs QuitItem = [OnQuit]"
  unfolding Start_eq by simp

text \<open>
  Post-close silence of the darwin tray. The trays that \<open>New\<close>, \<open>Start\<close>, \<open>Update\<close>
  and \<open>Close\<close> produce are ready only while \<open>appClose\<close> is set; on such a tray
  \<open>Close\<close> clears \<open>trayReady\<close>, and every \<open>Update\<close> after it returns the tray unchanged
  and issues no call.
\<close>

lemma New_invariant: "appClose New \<or> \<not> trayReady New"
  by (simp add: New_def)

lemma Start_invariant: "Start ic t s = Inr (t', cs) \<Longrightarrow> appClose t' \<or> \<not> trayReady t'"
  by (auto simp: Start_eq)

lemma Update_invariant:
  "appClose t \<or> \<not> trayReady t \<Longrightarrow> Update ic (Some t) s = Inr (Some t', cs) \<Longrightarrow>
   appClose t' \<or> \<not> trayReady t'"
  by (auto simp: Update_def split: Status.splits sum.splits dest: update_keeps_flags)

lemma Close_clears_ready:
  "appClose t \<or> \<not> trayReady t \<Longrightarrow> \<exists>t' cs. Close t = (Some t', cs) \<and> \<not> trayReady t'"
  by (auto simp: Close_def onExit_def close_def)

lemma Update_after_Close_silent:
  assumes "appClose t \<or> \<not> trayReady t" and "Close t = (r, cs)"
  shows "Update ic r s = Inr (r, [])"
  using assms
  by (auto simp: Close_def onExit_def close_def Update_def update_def split: Status.splits if_splits)

section \<open>Facts about the render engine of the tray_macos variant\<close>

lemma dirty_macos_bytes_stored:
  "map_index (prev_macos t) key = [VBytes b'] \<Longrightarrow>
   dirty_macos t key [VBytes b] = Inl UncomparableType"
  by (simp add: dirty_macos_def slices_Equal_def)

lemma slices_Equal_bytes_not_True: "slices_Equal [VBytes b] p \<noteq> Inr True"
  by (cases p; cases "tl p"; cases "hd p") (auto simp: slices_Equal_def)

lemma dirty_macos_bytes_ok:
  assumes "dirty_macos t key [VBytes b] = Inr (t', d)"
  shows "\<exists>m. prev_macos t = Some m \<and> t' = t\<lparr>prev_macos := Some (m(key \<mapsto> [VBytes b]))\<rparr> \<and> d"
proof -
  obtain e where e: "slices_Equal [VBytes b] (map_index (prev_macos t) key) = Inr e"
    using assms
    by (cases "slices_Equal [VBytes b] (map_index (prev_macos t) key)")
      (simp_all add: dirty_macos_def)
  with slices_Equal_bytes_not_True have "\<not> e" by (cases e) auto
  with assms e show ?thesis
    by (auto simp: dirty_macos_def map_assign_def split: option.splits)
qed

lemma dirty_macos_bytes_fresh:
  assumes "prev_macos t = Some m" and "m key = None"
  shows "dirty_macos t key [VBytes b] = Inr (t\<lparr>prev_macos := Some (m(key \<mapsto> [VBytes b]))\<rparr>, True)"
  using assms by (simp add: dirty_macos_def slices_Equal_def map_index_def map_assign_def)

lemma dirty_macos_scalar_other:
  assumes "list_all is_scalar vals" and "dirty_macos t key vals = Inr (t', d)" and "key' \<noteq> key"
  shows "map_index (prev_macos t') key' = map_index (prev_macos t) key' \<and>
         trayReady_macos t' = trayReady_macos t"
  using assms by (auto simp: dirty_macos_scalar map_index_def split: if_splits option.splits)

text \<open>The first repaint of the variant, on a ready tray whose cache has no icon entry.\<close>

lemma update_macos_fresh:
  assumes "trayReady_macos t" and "prev_macos t = Some m" and "m statusIconHandle = None"
  shows "update_macos ic t s =
    Inr (t\<lparr>prev_macos := Some (m(statusIconHandle \<mapsto> [VBytes (statusIcon ic s)],
                            selfHandle \<mapsto> [VString (fst (selfTitle s)), VBool (snd (selfTitle s))],
                            connToggleHandle \<mapsto> [VString (connToggleText (Online s))],
                            exitToggleHandle \<mapsto> [VString (exitToggleText s), VBool (snd (selfTitle s))]))\<rparr>,
         [SetIcon (statusIcon ic s)] @
         (if m selfHandle = Some [VString (fst (selfTitle s)), VBool (snd (selfTitle s))] then []
          else [ItemSetTitle SelfNodeItem (''This machine: '' @ fst (selfTitle s)),
                if snd (selfTitle s) then Enable SelfNodeItem else Disable SelfNodeItem]) @
         (if m connToggleHandle = Some [VString (connToggleText (Online s))] then []
          else [ItemSetTitle ConnToggleItem (connToggleText (Online s))]) @
         (if m exitToggleHandle = Some [VString (exitToggleText s), VBool (snd (selfTitle s))] then []
          else [ItemSetTitle ExitToggleItem (exitToggleText s),
                if snd (selfTitle s) then Enable ExitToggleItem else Disable ExitToggleItem]))"
  using assms
  apply (cases t)
  apply (simp add: update_macos_def updateStatusIcon_macos_def dirty_macos_bytes_fresh
       dirty_macos_scalar map_index_def handles_distinct Let_def split_beta split: option.splits)
  apply (auto simp: fun_upd_idem fun_upd_twist handles_distinct)
  done

lemma onReady_macos_eq:
  assumes "prev_macos t = Some Map.empty"
  shows "onReady_macos ic t A =
     Inr (t\<lparr>prev_macos := Some [statusIconHandle \<mapsto> [VBytes (statusIcon ic A)],
                                 selfHandle \<mapsto> [VString (fst (selfTitle A)), VBool (snd (selfTitle A))],
                                 connToggleHandle \<mapsto> [VString (connToggleText (Online A))],
                                 exitToggleHandle \<mapsto> [VString (exitToggleText A), VBool (snd (selfTitle A))]],
            trayReady_macos := True\<rparr>,
       [SetTitle ''Trayscale'',
        AddMenuItem ShowItem ''Show'' ''Show Trayscale'',
        Listen ShowItem OnShow,
        AddSeparator,
        AddMenuItemCheckbox ConnToggleItem ''Connected'' ''Connect to tailscale'' (Online A),
        Listen ConnToggleItem OnConnToggle,
        AddMenuItemCheckbox ExitToggleItem ''Exit Node Enabled''
          ''Allow use of this device as an exit node'' (ExitNodeActive A),
        Listen ConnToggleItem OnExitToggle,
        AddMenuItem SelfNodeItem (SelfAddrString A) ''Current Node IP'',
        Listen SelfNodeItem OnSelfNode,
        AddSeparator,
        AddMenuItem QuitItem ''Quit'' ''Quit Trayscale (tailscale will remain running)'',
        Listen QuitItem OnQuit,
        SetIcon (statusIcon ic A),
        ItemSetTitle SelfNodeItem (''This machine: '' @ fst (selfTitle A)),
        if snd (selfTitle A) then Enable SelfNodeItem else Disable SelfNodeItem,
        ItemSetTitle ConnToggleItem (connToggleText (Online A)),
        ItemSetTitle ExitToggleItem (exitToggleText A),
        if snd (selfTitle A) then Enable ExitToggleItem else Disable ExitToggleItem])"
proof -
  let ?t1 = "t\<lparr>trayReady_macos := True\<rparr>"
  have "trayReady_macos ?t1" "prev_macos ?t1 = Some Map.empty"
    "(Map.empty :: handle \<rightharpoonup> any list) statusIconHandle = None"
    using assms by simp_all
  from update_macos_fresh[OF this, of ic A] show ?thesis
    by (simp add: onReady_macos_def Let_def)
qed

text \<open>
  Once a repaint of the variant has returned on a ready tray, the icon entry of the cache
  holds a byte buffer, and every later repaint panics when \<open>slices.Equal\<close> compares it.
\<close>

lemma update_macos_second_panics:
  assumes "trayReady_macos t" and "update_macos ic t s = Inr (t', cs)"
  shows "update_macos ic t' s' = Inl UncomparableType"
proof -
  from assms obtain t1 c1 where 1: "updateStatusIcon_macos ic t s = Inr (t1, c1)"
    by (cases "updateStatusIcon_macos ic t s") (auto simp: update_macos_def split_beta)
  then obtain d1 where d1: "dirty_macos t statusIconHandle [VBytes (statusIcon ic s)] = Inr (t1, d1)"
    by (auto simp: updateStatusIcon_macos_def Let_def split: sum.splits if_splits)
  from dirty_macos_bytes_ok[OF d1]
  have t1: "map_index (prev_macos t1) statusIconHandle = [VBytes (statusIcon ic s)]"
    "trayReady_macos t1"
    using assms(1) by (auto simp: map_index_def)
  from assms 1 obtain t2 d2 where
    2: "dirty_macos t1 selfHandle [VString (fst (selfTitle s)), VBool (snd (selfTitle s))] = Inr (t2, d2)"
    by (cases "dirty_macos t1 selfHandle [VString (fst (selfTitle s)), VBool (snd (selfTitle s))]")
      (auto simp: update_macos_def split_beta)
  from assms 1 2 obtain t3 d3 where
    3: "dirty_macos t2 connToggleHandle [VString (connToggleText (Online s))] = Inr (t3, d3)"
    by (cases "dirty_macos t2 connToggleHandle [VString (connToggleText (Online s))]")
      (auto simp: update_macos_def split_beta)
  from assms 1 2 3 obtain d4 where
    4: "dirty_macos t3 exitToggleHandle [VString (exitToggleText s), VBool (snd (selfTitle s))] = Inr (t', d4)"
    by (cases "dirty_macos t3 exitToggleHandle [VString (exitToggleText s), VBool (snd (selfTitle s))]")
      (auto simp: update_macos_def split_beta Let_def)
  have "map_index (prev_macos t') statusIconHandle = [VBytes (statusIcon ic s)] \<and> trayReady_macos t'"
    using t1 dirty_macos_scalar_other[OF _ 2, of statusIconHandle]
      dirty_macos_scalar_other[OF _ 3, of statusIconHandle]
      dirty_macos_scalar_other[OF _ 4, of statusIconHandle]
    by (simp add: handles_distinct)
  then show ?thesis
    by (simp add: update_macos_def updateStatusIcon_macos_def dirty_macos_bytes_stored split_beta)
qed

text \<open>
  \<open>Close\<close> of the variant sets the cache to nil and leaves \<open>trayReady\<close> as it is, so on
  a ready tray the next \<open>Update\<close> panics when \<open>dirty\<close> assigns into the nil map.
\<close>

lemma Close_macos_then_Update_panics:
  assumes "trayReady_macos t"
  shows "Update_macos ic (Close_macos (Some t)) (IPN s) = Inl NilMapAssignment"
  using assms
  by (simp add: Update_macos_def Close_macos_def update_macos_def updateStatusIcon_macos_def
      dirty_macos_def slices_Equal_def map_index_def map_assign_def split_beta)

section \<open>The claims\<close>

text \<open>
  C2 (as amended). On an allocated cache, \<open>dirty\<close> (both files) given strings and booleans
  and \<open>dirtyBytes\<close> given byte buffers return true exactly when the new tuple differs from
  the stored one, a key with no entry counting as the empty tuple; on true the stored tuple
  becomes the new tuple and on false the tray is returned as it was. So for a key with no
  entry every non-empty tuple is dirty.
\<close>

theorem dirty_contract:
  assumes "prev t = Some m" and "prevBytes t = Some mb" and "prev_macos u = Some mm"
    and "list_all is_scalar vals"
  shows "dirty t key vals =
           (if vals = map_index (Some m) key then Inr (t, False)
            else Inr (t\<lparr>prev := Some (m(key \<mapsto> vals))\<rparr>, True))
       \<and> dirtyBytes t key bs =
           (if bs = map_index (Some mb) key then Inr (t, False)
            else Inr (t\<lparr>prevBytes := Some (mb(key \<mapsto> bs))\<rparr>, True))
       \<and> dirty_macos u key vals =
           (if vals = map_index (Some mm) key then Inr (u, False)
            else Inr (u\<lparr>prev_macos := Some (mm(key \<mapsto> vals))\<rparr>, True))
       \<and> (m key = None \<and> vals \<noteq> [] \<longrightarrow>
            dirty t key vals = Inr (t\<lparr>prev := Some (m(key \<mapsto> vals))\<rparr>, True))
       \<and> (mb key = None \<and> bs \<noteq> [] \<longrightarrow>
            dirtyBytes t key bs = Inr (t\<lparr>prevBytes := Some (mb(key \<mapsto> bs))\<rparr>, True))
       \<and> (mm key = None \<and> vals \<noteq> [] \<longrightarrow>
            dirty_macos u key vals = Inr (u\<lparr>prev_macos := Some (mm(key \<mapsto> vals))\<rparr>, True))"
  using assms by (auto simp: dirty_scalar dirty_macos_scalar dirtyBytes_eq map_index_def)

theorem dirty_contract_witness:
  "dirty (New\<lparr>prev := Some Map.empty, prevBytes := Some [statusIconHandle \<mapsto> [[1, 2]]]\<rparr>)
       selfHandle [VString ''a'', VBool True]
     = Inr (New\<lparr>prev := Some [selfHandle \<mapsto> [VString ''a'', VBool True]],
                 prevBytes := Some [statusIconHandle \<mapsto> [[1, 2]]]\<rparr>, True)
   \<and> dirtyBytes (New\<lparr>prev := Some Map.empty, prevBytes := Some [statusIconHandle \<mapsto> [[1, 2]]]\<rparr>)
       statusIconHandle [[1, 2]]
     = Inr (New\<lparr>prev := Some Map.empty, prevBytes := Some [statusIconHandle \<mapsto> [[1, 2]]]\<rparr>, False)
   \<and> dirty_macos (zero_Tray\<lparr>prev_macos := Some Map.empty\<rparr>) selfHandle [VString ''a'', VBool True]
     = Inr (zero_Tray\<lparr>prev_macos := Some [selfHandle \<mapsto> [VString ''a'', VBool True]]\<rparr>, True)"
  using dirty_contract
    [of "New\<lparr>prev := Some Map.empty, prevBytes := Some [statusIconHandle \<mapsto> [[1, 2]]]\<rparr>"
      Map.empty "[statusIconHandle \<mapsto> [[1, 2]]]" "zero_Tray\<lparr>prev_macos := Some Map.empty\<rparr>"
      Map.empty "[VString ''a'', VBool True]" selfHandle]
    dirty_contract
    [of "New\<lparr>prev := Some Map.empty, prevBytes := Some [statusIconHandle \<mapsto> [[1, 2]]]\<rparr>"
      Map.empty "[statusIconHandle \<mapsto> [[1, 2]]]" "zero_Tray\<lparr>prev_macos := Some Map.empty\<rparr>"
      Map.empty "[]" statusIconHandle "[[1, 2]]"]
  by (simp add: map_index_def New_def zero_Tray_def)

text \<open>
  C2 as stated fails: on a cache with no entry at all, the empty tuple is not dirty, for
  \<open>dirty\<close> and for \<open>dirtyBytes\<close>. The two restrictions of the amended claim are
  needed as well: on a nil cache a key has no entry, and \<open>dirty\<close> panics instead of
  returning true; and \<open>dirty\<close> given a byte buffer where one is stored panics instead
  of comparing the bytes.
\<close>

theorem dirty_empty_tuple_counterexample:
  "prev (New\<lparr>prev := Some Map.empty, prevBytes := Some Map.empty\<rparr>) = Some Map.empty
   \<and> prevBytes (New\<lparr>prev := Some Map.empty, prevBytes := Some Map.empty\<rparr>) = Some Map.empty
   \<and> dirty (New\<lparr>prev := Some Map.empty, prevBytes := Some Map.empty\<rparr>) selfHandle []
       = Inr (New\<lparr>prev := Some Map.empty, prevBytes := Some Map.empty\<rparr>, False)
   \<and> dirtyBytes (New\<lparr>prev := Some Map.empty, prevBytes := Some Map.empty\<rparr>) statusIconHandle []
       = Inr (New\<lparr>prev := Some Map.empty, prevBytes := Some Map.empty\<rparr>, False)
   \<and> dirty New selfHandle [VBool True] = Inl NilMapAssignment
   \<and> dirty (New\<lparr>prev := Some [statusIconHandle \<mapsto> [VBytes [1]]]\<rparr>) statusIconHandle [VBytes [2]]
       = Inl UncomparableType"
  by (simp add: dirty_def dirtyBytes_def slices_Equal_def map_index_def map_assign_def New_def)

text \<open>
  C6. The icon selected for a snapshot: the inactive icon when it is not online, whatever
  the exit-node state; otherwise the exit-node icon when an exit node is active; otherwise
  the active icon.
\<close>

theorem statusIcon_priority:
  "statusIcon ic s =
     (if \<not> Online s then statusIconInactiveData ic
      else if ExitNodeActive s then statusIconExitNodeData ic
      else statusIconActiveData ic)
   \<and> statusIcon ic (s\<lparr>Online := False, ExitNodeActive := True\<rparr>) = statusIconInactiveData ic
   \<and> statusIcon ic (s\<lparr>Online := False, ExitNodeActive := False\<rparr>) = statusIconInactiveData ic
   \<and> statusIcon ic (s\<lparr>Online := True, ExitNodeActive := True\<rparr>) = statusIconExitNodeData ic
   \<and> statusIcon ic (s\<lparr>Online := True, ExitNodeActive := False\<rparr>) = statusIconActiveData ic"
  by (simp add: statusIcon_def)

text \<open>
  C1. Idempotence: a second repaint with the identical snapshot issues no native mutation.
  The darwin tray has it (\<open>update_idempotent\<close>). The tray_macos variant passes the icon
  bytes to \<open>dirty\<close> as an \<open>any\<close>, so its second repaint does not return: after
  \<open>Start\<close> and the \<open>onReady\<close> callback, which paints the snapshot once, the repaint with
  the same snapshot panics in \<open>slices.Equal\<close> on the two byte slices.
\<close>

theorem second_repaint_macos_panics:
  "(case onReady_macos icons_example (Start_macos zero_Tray snapshot_host) snapshot_host of
      Inl e \<Rightarrow> False
    | Inr (t, cs) \<Rightarrow> update_macos icons_example t snapshot_host = Inl UncomparableType)"
proof -
  have p: "prev_macos (Start_macos zero_Tray snapshot_host) = Some Map.empty"
    by (simp add: Start_macos_def)
  have "trayReady_macos (Start_macos zero_Tray snapshot_host\<lparr>trayReady_macos := True\<rparr>)"
    by simp
  moreover obtain t cs where
    r: "onReady_macos icons_example (Start_macos zero_Tray snapshot_host) snapshot_host = Inr (t, cs)"
    using onReady_macos_eq[OF p] by blast
  moreover from r have
    "update_macos icons_example (Start_macos zero_Tray snapshot_host\<lparr>trayReady_macos := True\<rparr>)
       snapshot_host = Inr (t, drop 13 cs)"
    by (auto simp: onReady_macos_def Let_def split: sum.splits)
  ultimately have "update_macos icons_example t snapshot_host = Inl UncomparableType"
    using update_macos_second_panics by blast
  with r show ?thesis by simp
qed

text \<open>
  C3 (as amended). Let snapshot B differ from A only in \<open>ExitNodeActive\<close>. After a repaint
  with A on a ready tray, the repaint with B issues exactly the three calls of the exit
  toggle (its title, its enabled state as it was, and its checked state), preceded by the
  icon exactly when A is online and the exit-node icon differs from the active icon. It
  issues no call on the self-node item or the connect toggle.
\<close>

theorem selective_repaint:
  assumes "trayReady t" and "update ic t A = Inr (t1, c1)"
    and "B = A\<lparr>ExitNodeActive := \<not> ExitNodeActive A\<rparr>"
  shows "\<exists>t2. update ic t1 B =
           Inr (t2,
             (if Online A \<and> statusIconExitNodeData ic \<noteq> statusIconActiveData ic
              then [SetTemplateIcon (statusIcon ic B) (statusIcon ic B)] else []) @
             [ItemSetTitle ExitToggleItem (exitToggleText B),
              if SelfAddrValid A then Enable ExitToggleItem else Disable ExitToggleItem,
              if ExitNodeActive B then Check ExitToggleItem else Uncheck ExitToggleItem])"
proof -
  from assms obtain m mb where m: "prev t = Some m" "prevBytes t = Some mb"
    using update_ok_maps by blast
  let ?m1 = "m(selfHandle \<mapsto> [VString (fst (selfTitle A)), VBool (snd (selfTitle A))],
               connToggleHandle \<mapsto> [VString (connToggleText (Online A)), VBool (Online A)],
               exitToggleHandle \<mapsto> [VString (exitToggleText A), VBool (snd (selfTitle A)),
                                    VBool (ExitNodeActive A)])"
  let ?mb1 = "mb(statusIconHandle \<mapsto> [statusIcon ic A])"
  from assms(2) update_ready[OF assms(1) m, of ic A]
  have t1: "trayReady t1" "prev t1 = Some ?m1" "prevBytes t1 = Some ?mb1"
    using assms(1) by auto
  show ?thesis
    unfolding update_ready[OF t1]
    by (auto simp: assms(3) handles_distinct selfTitle_def exitToggleText_def statusIcon_def)
qed

theorem selective_repaint_witness:
  "(case Start icons_example New snapshot_host of
      Inl e \<Rightarrow> False
    | Inr (t, c) \<Rightarrow>
        trayReady t \<and>
        (case update icons_example t snapshot_host of
           Inl e \<Rightarrow> False
         | Inr (t1, c1) \<Rightarrow>
             (\<exists>t2. update icons_example t1 (snapshot_host\<lparr>ExitNodeActive := True\<rparr>) =
                Inr (t2, [SetTemplateIcon [3] [3],
                          ItemSetTitle ExitToggleItem ''Disable exit node'',
                          Enable ExitToggleItem,
                          Check ExitToggleItem]))))"
proof -
  obtain t c where s: "Start icons_example New snapshot_host = Inr (t, c)" and r: "trayReady t"
    using Start_eq[of icons_example New snapshot_host] by simp
  from update_idempotent have u: "update icons_example t snapshot_host = Inr (t, [])"
    using s r by (simp add: Start_def onReady_def Let_def split: sum.splits prod.splits)
  from selective_repaint[OF r u, of "snapshot_host\<lparr>ExitNodeActive := True\<rparr>"]
  have "\<exists>t2. update icons_example t (snapshot_host\<lparr>ExitNodeActive := True\<rparr>) =
                Inr (t2, [SetTemplateIcon [3] [3],
                          ItemSetTitle ExitToggleItem ''Disable exit node'',
                          Enable ExitToggleItem,
                          Check ExitToggleItem])"
    by (simp add: example_defs statusIcon_def exitToggleText_def)
  with s r u show ?thesis by simp
qed

text \<open>
  C3 as stated fails: when A is not online the icon stays the inactive icon, so the repaint
  with B issues no icon call; and the exit toggle's enabled state is issued again.
\<close>

theorem selective_repaint_counterexample:
  "(case Start icons_example New snapshot_offline of
      Inl e \<Rightarrow> False
    | Inr (t1, c1) \<Rightarrow>
        map_sum id snd (update icons_example t1 (snapshot_offline\<lparr>ExitNodeActive := True\<rparr>)) =
          Inr [ItemSetTitle ExitToggleItem ''Disable exit node'',
               Disable ExitToggleItem,
               Check ExitToggleItem])"
proof -
  let ?t1 = "New\<lparr>prev := Some [selfHandle \<mapsto> [VString (fst (selfTitle snapshot_offline)),
                                              VBool (snd (selfTitle snapshot_offline))],
                            connToggleHandle \<mapsto> [VString (connToggleText (Online snapshot_offline)),
                                                    VBool (Online snapshot_offline)],
                            exitToggleHandle \<mapsto> [VString (exitToggleText snapshot_offline),
                                                    VBool (snd (selfTitle snapshot_offline)),
                                                    VBool (ExitNodeActive snapshot_offline)]],
                prevBytes := Some [statusIconHandle \<mapsto> [statusIcon icons_example snapshot_offline]],
                appStart := True, appClose := True, trayReady := True\<rparr>"
  have t1: "trayReady ?t1"
    "prev ?t1 = Some [selfHandle \<mapsto> [VString (fst (selfTitle snapshot_offline)),
                                              VBool (snd (selfTitle snapshot_offline))],
                            connToggleHandle \<mapsto> [VString (connToggleText (Online snapshot_offline)),
                                                    VBool (Online snapshot_offline)],
                            exitToggleHandle \<mapsto> [VString (exitToggleText snapshot_offline),
                                                    VBool (snd (selfTitle snapshot_offline)),
                                                    VBool (ExitNodeActive snapshot_offline)]]"
    "prevBytes ?t1 = Some [statusIconHandle \<mapsto> [statusIcon icons_example snapshot_offline]]"
    by simp_all
  show ?thesis
    unfolding Start_eq sum.case prod.case update_ready[OF t1]
    by (simp add: handles_distinct selfTitle_def exitToggleText_def statusIcon_def
        connToggleText_def example_defs)
qed

text \<open>
  C4. Post-close silence: after \<open>Close\<close>, an \<open>Update\<close> issues no native mutation. The
  darwin tray has it (\<open>Update_after_Close_silent\<close>). In the tray_macos variant \<open>Close\<close>
  leaves \<open>trayReady\<close> set, so after \<open>Start\<close>, the \<open>onReady\<close> callback and \<open>Close\<close>,
  an \<open>Update\<close> does not return: it panics assigning into the nil cache.
\<close>

theorem Update_after_Close_macos_panics:
  "(case onReady_macos icons_example (Start_macos zero_Tray snapshot_host) snapshot_host of
      Inl e \<Rightarrow> False
    | Inr (t, cs) \<Rightarrow>
        Update_macos icons_example (Close_macos (Some t)) (IPN snapshot_host) = Inl NilMapAssignment)"
proof -
  have p: "prev_macos (Start_macos zero_Tray snapshot_host) = Some Map.empty"
    by (simp add: Start_macos_def)
  show ?thesis
    unfolding onReady_macos_eq[OF p] by (simp add: Close_macos_then_Update_panics)
qed

text \<open>
  C5. The connect-toggle step consults the cache with the label and the online flag, and
  when dirty sets the title and the checked state. The darwin tray does so
  (\<open>update_conn_toggle\<close>). The tray_macos variant stores the label alone and sets only
  the title: the first repaint of an online snapshot neither checks nor unchecks the toggle.
\<close>

theorem conn_toggle_macos_title_only:
  "map_sum id (\<lambda>(t, cs). (map_index (prev_macos t) connToggleHandle, filter (on_item ConnToggleItem) cs))
     (onReady_macos icons_example (Start_macos zero_Tray snapshot_host) snapshot_host)
   = Inr ([VString ''Disconnect''], [ItemSetTitle ConnToggleItem ''Disconnect''])"
proof -
  have p: "prev_macos (Start_macos zero_Tray snapshot_host) = Some Map.empty"
    by (simp add: Start_macos_def)
  show ?thesis
    unfolding onReady_macos_eq[OF p]
    by (simp add: map_index_def handles_distinct connToggleText_def example_defs)
qed

text \<open>
  C7. The self label: with an invalid self address the label is "Not connected",
  \<open>connected\<close> is false and the self item is disabled; with a valid address \<open>a\<close> and
  display name \<open>d\<close> the label is "d (a)", \<open>connected\<close> is true and the self item is
  enabled. The title applied is "This machine: " followed by the label. A repaint applies
  them when the stored self tuple differs, and leaves the self item alone otherwise.
\<close>

theorem self_label_derivation:
  assumes "trayReady t" and "prev t = Some m" and "prevBytes t = Some mb"
  shows "selfTitle s =
           (if SelfAddrValid s then (DisplayName s @ '' ('' @ SelfAddrString s @ '')'', True)
            else (''Not connected'', False))
       \<and> (\<exists>t' cs. update ic t s = Inr (t', cs) \<and>
            filter (on_item SelfNodeItem) cs =
              (if m selfHandle = Some [VString (fst (selfTitle s)), VBool (snd (selfTitle s))] then []
               else if SelfAddrValid s
               then [ItemSetTitle SelfNodeItem
                       (''This machine: '' @ DisplayName s @ '' ('' @ SelfAddrString s @ '')''),
                     Enable SelfNodeItem]
               else [ItemSetTitle SelfNodeItem ''This machine: Not connected'',
                     Disable SelfNodeItem]))"
  unfolding update_ready[OF assms]
  by (simp add: selfTitle_def)

theorem self_label_derivation_witness:
  "selfTitle snapshot_host = (''host (100.1.2.3)'', True)
   \<and> (\<exists>t' cs. update icons_example
                 (New\<lparr>prev := Some Map.empty, prevBytes := Some Map.empty, trayReady := True\<rparr>)
                 snapshot_host = Inr (t', cs) \<and>
        filter (on_item SelfNodeItem) cs =
          [ItemSetTitle SelfNodeItem ''This machine: host (100.1.2.3)'', Enable SelfNodeItem])
   \<and> selfTitle snapshot_offline = (''Not connected'', False)
   \<and> (\<exists>t' cs. update icons_example
                 (New\<lparr>prev := Some Map.empty, prevBytes := Some Map.empty, trayReady := True\<rparr>)
                 snapshot_offline = Inr (t', cs) \<and>
        filter (on_item SelfNodeItem) cs =
          [ItemSetTitle SelfNodeItem ''This machine: Not connected'', Disable SelfNodeItem])"
  using self_label_derivation
      [of "New\<lparr>prev := Some Map.empty, prevBytes := Some Map.empty, trayReady := True\<rparr>"
        Map.empty Map.empty snapshot_host icons_example]
    self_label_derivation
      [of "New\<lparr>prev := Some Map.empty, prevBytes := Some Map.empty, trayReady := True\<rparr>"
        Map.empty Map.empty snapshot_offline icons_example]
  by (simp add: snapshot_host_def snapshot_offline_def)

text \<open>
  C8. \<open>Start\<close> resets the diff caches to empty before the first repaint, so that repaint
  issues the mutation of every element for its snapshot A, whatever an earlier session
  painted and left in the caches: in the darwin tray \<open>Start\<close> runs \<open>onReady\<close> on a
  tray with two empty caches, returns on every tray, issues the icon, the self item's title
  and enabled state, the connect toggle's title and checked state and the exit toggle's
  title, enabled and checked state, and leaves exactly the tuples of A in the caches; in
  the tray_macos variant \<open>Start\<close> empties its one cache and the repaint of \<open>onReady\<close>
  issues every mutation that variant has.
\<close>

theorem Start_resets_caches:
  "Start ic t A =
     onReady ic (t\<lparr>trayReady := False, appStart := True, appClose := True,
                    prev := Some Map.empty, prevBytes := Some Map.empty\<rparr>) A
   \<and> (\<exists>t'. Start ic t A =
         Inr (t',
           [SetRemovalAllowed True,
            SetTemplateIcon (statusIconActiveData ic) (statusIconActiveData ic),
            AddMenuItem ShowItem ''Show'' ''Show Trayscale'',
            Listen ShowItem OnShow,
            AddSeparator,
            AddMenuItemCheckbox ConnToggleItem ''Connected'' ''Connect to tailscale'' (Online A),
            Listen ConnToggleItem OnConnToggle,
            AddMenuItemCheckbox ExitToggleItem ''Exit Node Enabled''
              ''Allow use of this device as an exit node'' (ExitNodeActive A),
            Listen ExitToggleItem OnExitToggle,
            AddMenuItem SelfNodeItem (SelfAddrString A) ''Current Node IP'',
            Listen SelfNodeItem OnSelfNode,
            AddSeparator,
            AddMenuItem QuitItem ''Quit'' ''Quit Trayscale (tailscale will remain running)'',
            Listen QuitItem OnQuit] @
           [SetTemplateIcon (statusIcon ic A) (statusIcon ic A),
            ItemSetTitle SelfNodeItem (''This machine: '' @ fst (selfTitle A)),
            if snd (selfTitle A) then Enable SelfNodeItem else Disable SelfNodeItem,
            ItemSetTitle ConnToggleItem (connToggleText (Online A)),
            if Online A then Check ConnToggleItem else Uncheck ConnToggleItem,
            ItemSetTitle ExitToggleItem (exitToggleText A),
            if snd (selfTitle A) then Enable ExitToggleItem else Disable ExitToggleItem,
            if ExitNodeActive A then Check ExitToggleItem else Uncheck ExitToggleItem])
         \<and> prev t' = Some [selfHandle \<mapsto> [VString (fst (selfTitle A)), VBool (snd (selfTitle A))],
                            connToggleHandle \<mapsto> [VString (connToggleText (Online A)), VBool (Online A)],
                            exitToggleHandle \<mapsto> [VString (exitToggleText A), VBool (snd (selfTitle A)),
                                                 VBool (ExitNodeActive A)]]
         \<and> prevBytes t' = Some [statusIconHandle \<mapsto> [statusIcon ic A]])
   \<and> prev_macos (Start_macos u A) = Some Map.empty
   \<and> (\<exists>u'. onReady_macos ic (Start_macos u A) A =
         Inr (u',
           [SetTitle ''Trayscale'',
            AddMenuItem ShowItem ''Show'' ''Show Trayscale'',
            Listen ShowItem OnShow,
            AddSeparator,
            AddMenuItemCheckbox ConnToggleItem ''Connected'' ''Connect to tailscale'' (Online A),
            Listen ConnToggleItem OnConnToggle,
            AddMenuItemCheckbox ExitToggleItem ''Exit Node Enabled''
              ''Allow use of this device as an exit node'' (ExitNodeActive A),
            Listen ConnToggleItem OnExitToggle,
            AddMenuItem SelfNodeItem (SelfAddrString A) ''Current Node IP'',
            Listen SelfNodeItem OnSelfNode,
            AddSeparator,
            AddMenuItem QuitItem ''Quit'' ''Quit Trayscale (tailscale will remain running)'',
            Listen QuitItem OnQuit] @
           [SetIcon (statusIcon ic A),
            ItemSetTitle SelfNodeItem (''This machine: '' @ fst (selfTitle A)),
            if snd (selfTitle A) then Enable SelfNodeItem else Disable SelfNodeItem,
            ItemSetTitle ConnToggleItem (connToggleText (Online A)),
            ItemSetTitle ExitToggleItem (exitToggleText A),
            if snd (selfTitle A) then Enable ExitToggleItem else Disable ExitToggleItem]))"
proof -
  have p: "prev_macos (Start_macos u A) = Some Map.empty"
    by (simp add: Start_macos_def)
  have c1: "Start ic t A =
     onReady ic (t\<lparr>trayReady := False, appStart := True, appClose := True,
                    prev := Some Map.empty, prevBytes := Some Map.empty\<rparr>) A"
    by (simp add: Start_def)
  show ?thesis
    apply (intro conjI)
       apply (rule c1)
      apply (simp add: Start_eq)
     apply (rule p)
    apply (simp add: onReady_macos_eq[OF p])
    done
qed

text \<open>
  The sequence of the claim on the darwin tray: \<open>Start\<close>, \<open>Update\<close> with A (which
  issues nothing, A being painted), \<open>Close\<close>, and \<open>Start\<close> again with A.
\<close>

theorem Start_resets_caches_witness:
  "(case Start icons_example New snapshot_host of
      Inl e \<Rightarrow> False
    | Inr (t1, c1) \<Rightarrow>
        (case Update icons_example (Some t1) (IPN snapshot_host) of
           Inl e \<Rightarrow> False
         | Inr (r2, c2) \<Rightarrow>
             c2 = [] \<and>
             (case r2 of
                None \<Rightarrow> False
              | Some t2 \<Rightarrow>
                  (case Close t2 of
                     (None, c3) \<Rightarrow> False
                   | (Some t3, c3) \<Rightarrow>
                       prevBytes t3 = Some [statusIconHandle \<mapsto> [[1]]] \<and>
                       (\<exists>t4. Start icons_example t3 snapshot_host =
                          Inr (t4,
                            [SetRemovalAllowed True,
                             SetTemplateIcon [1] [1],
                             AddMenuItem ShowItem ''Show'' ''Show Trayscale'',
                             Listen ShowItem OnShow,
                             AddSeparator,
                             AddMenuItemCheckbox ConnToggleItem ''Connected''
                               ''Connect to tailscale'' True,
                             Listen ConnToggleItem OnConnToggle,
                             AddMenuItemCheckbox ExitToggleItem ''Exit Node Enabled''
                               ''Allow use of this device as an exit node'' False,
                             Listen ExitToggleItem OnExitToggle,
                             AddMenuItem SelfNodeItem ''100.1.2.3'' ''Current Node IP'',
                             Listen SelfNodeItem OnSelfNode,
                             AddSeparator,
                             AddMenuItem QuitItem ''Quit''
                               ''Quit Trayscale (tailscale will remain running)'',
                             Listen QuitItem OnQuit,
                             SetTemplateIcon [1] [1],
                             ItemSetTitle SelfNodeItem ''This machine: host (100.1.2.3)'',
                             Enable SelfNodeItem,
                             ItemSetTitle ConnToggleItem ''Disconnect'',
                             Check ConnToggleItem,
                             ItemSetTitle ExitToggleItem ''Enable exit node'',
                             Enable ExitToggleItem,
                             Uncheck ExitToggleItem]))))))"
proof -
  let ?t1 = "New\<lparr>prev := Some [selfHandle \<mapsto> [VString (fst (selfTitle snapshot_host)),
                                              VBool (snd (selfTitle snapshot_host))],
                            connToggleHandle \<mapsto> [VString (connToggleText (Online snapshot_host)),
                                                    VBool (Online snapshot_host)],
                            exitToggleHandle \<mapsto> [VString (exitToggleText snapshot_host),
                                                    VBool (snd (selfTitle snapshot_host)),
                                                    VBool (ExitNodeActive snapshot_host)]],
                prevBytes := Some [statusIconHandle \<mapsto> [statusIcon icons_example snapshot_host]],
                appStart := True, appClose := True, trayReady := True\<rparr>"
  let ?t3 = "?t1\<lparr>trayReady := False, appClose := False, appStart := False, prev := None\<rparr>"
  have 2: "Update icons_example (Some ?t1) (IPN snapshot_host) = Inr (Some ?t1, [])"
    using update_idempotent[of icons_example "?t1\<lparr>prev := Some Map.empty, prevBytes := Some Map.empty\<rparr>"
        snapshot_host ?t1]
      update_ready[of "?t1\<lparr>prev := Some Map.empty, prevBytes := Some Map.empty\<rparr>" Map.empty Map.empty
        icons_example snapshot_host]
    by (simp add: Update_def)
  have 3: "Close ?t1 = (Some ?t3, [Quit])"
    by (simp add: Close_def onExit_def close_def)
  have 4: "prevBytes ?t3 = Some [statusIconHandle \<mapsto> [[1]]]"
    by (simp add: statusIcon_def example_defs)
  from Start_resets_caches[of icons_example ?t3 snapshot_host zero_Tray, THEN conjunct2, THEN conjunct1]
  have 5: "\<exists>t4. Start icons_example ?t3 snapshot_host =
                          Inr (t4,
                            [SetRemovalAllowed True,
                             SetTemplateIcon [1] [1],
                             AddMenuItem ShowItem ''Show'' ''Show Trayscale'',
                             Listen ShowItem OnShow,
                             AddSeparator,
                             AddMenuItemCheckbox ConnToggleItem ''Connected''
                               ''Connect to tailscale'' True,
                             Listen ConnToggleItem OnConnToggle,
                             AddMenuItemCheckbox ExitToggleItem ''Exit Node Enabled''
                               ''Allow use of this device as an exit node'' False,
                             Listen ExitToggleItem OnExitToggle,
                             AddMenuItem SelfNodeItem ''100.1.2.3'' ''Current Node IP'',
                             Listen SelfNodeItem OnSelfNode,
                             AddSeparator,
                             AddMenuItem QuitItem ''Quit''
                               ''Quit Trayscale (tailscale will remain running)'',
                             Listen QuitItem OnQuit,
                             SetTemplateIcon [1] [1],
                             ItemSetTitle SelfNodeItem ''This machine: host (100.1.2.3)'',
                             Enable SelfNodeItem,
                             ItemSetTitle ConnToggleItem ''Disconnect'',
                             Check ConnToggleItem,
                             ItemSetTitle ExitToggleItem ''Enable exit node'',
                             Enable ExitToggleItem,
                             Uncheck ExitToggleItem])"
    by (auto simp: statusIcon_def selfTitle_def connToggleText_def exitToggleText_def
        icons_example_def snapshot_host_def)
  obtain c1 where s: "Start icons_example New snapshot_host = Inr (?t1, c1)"
    by (simp add: Start_eq)
  show ?thesis
    apply (subst s)
    apply (simp only: sum.case prod.case 2 3 option.case)
    using 4 5 apply simp
    done
qed

text \<open>
  C9. \<open>Update\<close> on a tray that is not ready, or with a status that is not an
  \<open>*tsutil.IPNStatus\<close>, returns without a panic, issues no call and returns the tray,
  with its caches, as it was. Both files.
\<close>

theorem Update_noop:
  assumes "\<not> trayReady t \<or> s = OtherStatus" and "\<not> trayReady_macos u \<or> s' = OtherStatus"
  shows "Update ic (Some t) s = Inr (Some t, []) \<and> Update_macos ic (Some u) s' = Inr (Some u, [])"
  using assms
  by (auto simp: Update_def update_def Update_macos_def update_macos_def split: Status.splits)

theorem Update_noop_witness:
  "Update icons_example (Some New) (IPN snapshot_host) = Inr (Some New, [])
   \<and> Update_macos icons_example (Some zero_Tray) (IPN snapshot_host) = Inr (Some zero_Tray, [])
   \<and> Update icons_example
        (Some (New\<lparr>prev := Some Map.empty, prevBytes := Some Map.empty, trayReady := True\<rparr>))
        OtherStatus
      = Inr (Some (New\<lparr>prev := Some Map.empty, prevBytes := Some Map.empty, trayReady := True\<rparr>), [])
   \<and> Update_macos icons_example
        (Some (zero_Tray\<lparr>prev_macos := Some Map.empty, trayReady_macos := True\<rparr>)) OtherStatus
      = Inr (Some (zero_Tray\<lparr>prev_macos := Some Map.empty, trayReady_macos := True\<rparr>), [])"
  using Update_noop [of New "IPN snapshot_host" zero_Tray "IPN snapshot_host" icons_example]
    Update_noop
      [of "New\<lparr>prev := Some Map.empty, prevBytes := Some Map.empty, trayReady := True\<rparr>"
        OtherStatus "zero_Tray\<lparr>prev_macos := Some Map.empty, trayReady_macos := True\<rparr>"
        OtherStatus icons_example]
  by (simp add: New_def zero_Tray_def)

text \<open>
  C10. Each listener drains the click channel of its own item and calls that item's
  callback. The darwin tray has it (\<open>Start_click\<close>). In the tray_macos variant the
  listener started for the exit toggle ranges over the connect toggle's channel: a click on
  the exit toggle reaches no callback, and a click on the connect toggle can reach
  \<open>OnExitToggle\<close>.
\<close>

theorem exit_toggle_listener_macos:
  "(case onReady_macos icons_example (Start_macos zero_Tray snapshot_host) snapshot_host of
      Inl e \<Rightarrow> False
    | Inr (t, cs) \<Rightarrow>
        click cs ExitToggleItem = [] \<and> click cs ConnToggleItem = [OnConnToggle, OnExitToggle])"
proof -
  have p: "prev_macos (Start_macos zero_Tray snapshot_host) = Some Map.empty"
    by (simp add: Start_macos_def)
  show ?thesis
    unfolding onReady_macos_eq[OF p] by simp
qed

end
